theory Spec2Isabelle
  imports Main "HOL-Library.Sublist" "HOL-Library.Word"
begin

section \<open>The UI script \<^verbatim>\<open>src-ui/index.js\<close>\<close>

subsection \<open>JavaScript strings and values\<close>

text \<open>
  A JavaScript string is a sequence of UTF-16 code units, and \<^verbatim>\<open>String.prototype.includes\<close>
  compares code units. String literals of the script that are plain ASCII are written as
  Isabelle strings and converted by \<open>ascii\<close>; the two emoji of the script are single code
  units (U+2705 and U+274C).
\<close>

type_synonym code_unit = "16 word"

type_synonym js_string = "code_unit list"

definition ascii :: "string \<Rightarrow> js_string" where
  "ascii s = map of_char s"

text \<open>
  The values the handler can be given. The script documents \<^verbatim>\<open>message\<close> as a string; the
  other two constructors stand for a payload that is no string and has no \<^verbatim>\<open>includes\<close>
  method, on which \<^verbatim>\<open>message.includes(...)\<close> throws a TypeError.
\<close>

datatype js_value = JUndefined | JNull | JString js_string

datatype js_error = TypeError

text \<open>
  \<^verbatim>\<open>s.includes(sub)\<close>: does \<open>sub\<close> occur in \<open>s\<close> as a contiguous run of code units,
  searched from position 0.
\<close>

fun str_includes :: "'a list \<Rightarrow> 'a list \<Rightarrow> bool" where
  "str_includes [] sub = (sub = [])"
| "str_includes (c # cs) sub = (prefix sub (c # cs) \<or> str_includes cs sub)"

subsection \<open>The document\<close>

text \<open>
  The script touches the document only through \<^verbatim>\<open>getElementById\<close> and the \<^verbatim>\<open>innerHTML\<close>
  of the element found, so the document is a map from element ids to the \<^verbatim>\<open>innerHTML\<close>
  last assigned; an id that maps to \<open>None\<close> has no element and \<^verbatim>\<open>getElementById\<close> returns
  \<^verbatim>\<open>null\<close> for it.
\<close>

type_synonym html_document = "string \<rightharpoonup> js_string"

definition success_paragraph :: "js_string \<Rightarrow> js_string" where
  \<open>success_paragraph message =
     ascii ''<p style="color: green;">'' @ [0x2705] @ ascii '' '' @ message @ ascii ''</p>''\<close>

definition failure_paragraph :: "js_string \<Rightarrow> js_string" where
  \<open>failure_paragraph message =
     ascii ''<p style="color: red;">'' @ [0x274C] @ ascii '' '' @ message @ ascii ''</p>''\<close>

definition plain_paragraph :: "js_string \<Rightarrow> js_string" where
  "plain_paragraph message = ascii ''<p>'' @ message @ ascii ''</p>''"

text \<open>
  \<^verbatim>\<open>function showResult(message)\<close>. The element is looked up first; only when it exists is
  \<^verbatim>\<open>message.includes\<close> evaluated, which throws on a value that is no string.
\<close>

definition showResult :: "js_value \<Rightarrow> html_document \<Rightarrow> js_error + html_document" where
  "showResult message doc =
     (case doc ''result'' of
        None \<Rightarrow> Inr doc
      | Some element \<Rightarrow>
          (case message of
             JString m \<Rightarrow>
               if str_includes m (ascii ''Plugin returned:'') then
                 Inr (doc(''result'' \<mapsto> success_paragraph m))
               else if str_includes m (ascii ''failed:'') then
                 Inr (doc(''result'' \<mapsto> failure_paragraph m))
               else
                 Inr (doc(''result'' \<mapsto> plain_paragraph m))
           | JUndefined \<Rightarrow> Inl TypeError
           | JNull \<Rightarrow> Inl TypeError))"

subsection \<open>The Tauri bridge\<close>

text \<open>
  \<^verbatim>\<open>window.__TAURI__\<close> is supplied by the Tauri runtime, not by this repository. Of
  \<^verbatim>\<open>core.invoke\<close> the model keeps the commands sent to the backend, each with the arguments
  passed after the command name, and takes the way the backend settles the returned
  promise as an input. Of \<^verbatim>\<open>event.listen\<close> it keeps the listeners registered, by event name.
\<close>

datatype settled = Resolved js_value | Rejected js_value

record tauri_event =
  event_name :: js_string
  payload :: js_value

type_synonym listener = "tauri_event \<Rightarrow> html_document \<Rightarrow> js_error + html_document"

record ui =
  page :: html_document
  ipc_calls :: "(js_string \<times> js_value list) list"
  event_listeners :: "(js_string \<times> listener) list"

definition initial_ui :: "html_document \<Rightarrow> ui" where
  "initial_ui doc = \<lparr>page = doc, ipc_calls = [], event_listeners = []\<rparr>"

text \<open>
  \<^verbatim>\<open>async function clickButton()\<close>: one \<^verbatim>\<open>invoke('handle_button_click')\<close>, awaited. The
  value the promise resolves to is dropped (the function body has no \<^verbatim>\<open>return\<close>); a
  rejection propagates out of the \<^verbatim>\<open>await\<close>.
\<close>

definition clickButton :: "settled \<Rightarrow> ui \<Rightarrow> settled \<times> ui" where
  "clickButton reply u =
     (let u' = u\<lparr>ipc_calls := ipc_calls u @ [(ascii ''handle_button_click'', [])]\<rparr>
      in case reply of
           Resolved v \<Rightarrow> (Resolved JUndefined, u')
         | Rejected r \<Rightarrow> (Rejected r, u'))"

text \<open>The callback given to \<^verbatim>\<open>listen\<close>: \<^verbatim>\<open>(event) => { showResult(event.payload); }\<close>.\<close>

definition button_clicked_listener :: listener where
  "button_clicked_listener ev doc = showResult (payload ev) doc"

text \<open>The \<^verbatim>\<open>DOMContentLoaded\<close> callback: one \<^verbatim>\<open>listen('button-clicked', ...)\<close>.\<close>

definition on_DOMContentLoaded :: "ui \<Rightarrow> ui" where
  "on_DOMContentLoaded u =
     u\<lparr>event_listeners := event_listeners u @ [(ascii ''button-clicked'', button_clicked_listener)]\<rparr>"

text \<open>
  The runtime's side of \<^verbatim>\<open>listen\<close>: an event from the backend runs the listeners
  registered under its name, in registration order; a listener that throws leaves the
  document as it found it.
\<close>

fun run_listeners :: "(js_string \<times> listener) list \<Rightarrow> tauri_event \<Rightarrow> html_document \<Rightarrow> html_document" where
  "run_listeners [] ev doc = doc"
| "run_listeners ((name, callback) # ls) ev doc =
     (if name = event_name ev then
        (case callback ev doc of
           Inr doc' \<Rightarrow> run_listeners ls ev doc'
         | Inl err \<Rightarrow> run_listeners ls ev doc)
      else run_listeners ls ev doc)"

definition backend_emits :: "tauri_event \<Rightarrow> ui \<Rightarrow> ui" where
  "backend_emits ev u = u\<lparr>page := run_listeners (event_listeners u) ev (page u)\<rparr>"

section \<open>The plugin host core\<close>

text \<open>
  The lifecycle manager, the event bus and the capability gateway are described by the
  specification and declared by the interface definitions in the repository's documents
  (\<^verbatim>\<open>init\<close>, \<^verbatim>\<open>shutdown\<close>, \<^verbatim>\<open>handle-event\<close>, \<^verbatim>\<open>send-message\<close>, \<^verbatim>\<open>emit-event\<close>); their
  implementation is not among the source files. Every definition of this section is
  therefore written from the specification's sentences, and says which.
\<close>

subsection \<open>Data model\<close>

text \<open>Modelled from the spec: the PluginId of section 3; the spec leaves its representation open.\<close>

type_synonym plugin_id = nat

text \<open>
  Modelled from the spec: the PluginState enum of section 3, with the terminal state
  \<open>ShutDown\<close> that the state machine of section 4.1 ends in. The lifecycle manager's code is
  missing.
\<close>

datatype plugin_state =
  Discovered | Loaded | Initialized | Running | Suspended | ShuttingDown | ShutDown | Failed

text \<open>
  Modelled from the spec: the Capability variant of section 3; an action set is a list of
  action names. The capability model's code is missing.
\<close>

datatype capability =
  Network string
| Filesystem string
| ServiceApi string "string list"
| InterPlugin plugin_id string

text \<open>
  Modelled from the spec: the PluginManifest of section 3 (identity, declared capabilities,
  declared optional imports and exports). The manifest type's code is missing.
\<close>

record plugin_manifest =
  plugin_name :: string
  plugin_version :: string
  capabilities :: "capability list"
  declared_imports :: "string list"
  declared_exports :: "string list"

text \<open>Modelled from the spec: the source of an Event, "PluginId|Host" (section 3).\<close>

datatype event_source = Host | Plugin plugin_id

text \<open>
  Modelled from the spec: the Event of section 3. The correlation id and the timestamp are
  left out: no operation the specification describes reads them. The event type's code is
  missing.
\<close>

record event =
  etype :: string
  esource :: event_source
  edata :: string

text \<open>
  Modelled from the spec: section 4.2, "matching is by exact event-type string or a
  wildcard pattern declared at subscribe time". The bus's matching code is missing.
\<close>

datatype pattern = Exact string | Wildcard

fun matches :: "pattern \<Rightarrow> string \<Rightarrow> bool" where
  "matches (Exact t) t' = (t = t')"
| "matches Wildcard t' = True"

text \<open>
  Modelled from the spec: the plugin-exported functions of section 6 that the host calls
  (\<^verbatim>\<open>init\<close>, \<^verbatim>\<open>handle-event\<close>, \<^verbatim>\<open>shutdown\<close>) and the request of another plugin that the
  gateway forwards (section 4.3). A value of this type is one call dispatched into a plugin
  instance.
\<close>

datatype instance_call =
  CallInit
| CallHandleEvent event
| CallShutdown
| CallExport plugin_id string string

text \<open>
  Modelled from the spec: the opaque authenticated-session handle of the Credential Vault
  (sections 2 and 3). The vault's code is missing.
\<close>

datatype session_handle = SessionHandle nat

text \<open>
  Modelled from the spec: the host-exposed functions of section 6 that go through
  \<^verbatim>\<open>invoke\<close>. \<^verbatim>\<open>subscribe-to-event\<close> is not among them here: by section 3 a Subscription
  is created only by the lifecycle transition into \<open>Initialized\<close>, so the event types a
  plugin subscribes to are an outcome of its \<^verbatim>\<open>init\<close> (see \<open>init_ok\<close> below).
\<close>

datatype host_call =
  SendMessage string string string
| EmitEvent string string
| CallPlugin plugin_id string string

text \<open>Modelled from the spec: the error taxonomy of section 7 as far as the gateway returns it.\<close>

datatype gateway_error = NotRunning | PermissionDenied | Timeout | Reentrant

text \<open>
  Modelled from the spec: section 4.3, "all gateway outcomes are returned synchronously to
  the caller as a result/error value"; a result carries the target's answer where the
  function has one (\<^verbatim>\<open>call-plugin\<close>).
\<close>

datatype gateway_result = Ok "string option" | Err gateway_error

text \<open>
  Modelled from the spec: section 4.3, actions are "awaited internally with a bounded
  timeout". What the collaborator behind a dispatched call does is an input: it answers
  within the bound, or the bound expires.
\<close>

datatype reply = Replied string | Expired

text \<open>
  Modelled from the spec: the shared resources of section 5 (subscription table, capability
  grant table, Credential Vault), the per-plugin state and inbound queue of the lifecycle
  manager (section 2), and the logs that make effects observable: the calls dispatched into
  each instance, the requests handed to the API Connection Manager, the events dropped on
  overflow, and the audit log of denied calls (section 7).
\<close>

record system =
  plugin_states :: "plugin_id \<rightharpoonup> plugin_state"
  manifests :: "plugin_id \<rightharpoonup> plugin_manifest"
  granted :: "plugin_id \<Rightarrow> capability list"
  subscriptions :: "(plugin_id \<times> pattern) list"
  queues :: "plugin_id \<Rightarrow> event list"
  capacity :: nat
  dispatched :: "plugin_id \<Rightarrow> instance_call list"
  vault :: "string \<rightharpoonup> session_handle"
  outbound :: "(string \<times> session_handle option \<times> string \<times> string) list"
  dropped :: "(plugin_id \<times> event) list"
  audit :: "(plugin_id \<times> host_call) list"

text \<open>
  Modelled from the spec: section 9, the host-wide state is constructed explicitly; at the
  start no plugin is known and every table, queue and log is empty.
\<close>

definition boot :: "nat \<Rightarrow> (string \<rightharpoonup> session_handle) \<Rightarrow> system" where
  "boot cap v =
     \<lparr>plugin_states = Map.empty, manifests = Map.empty, granted = (\<lambda>p. []),
      subscriptions = [], queues = (\<lambda>p. []), capacity = cap, dispatched = (\<lambda>p. []),
      vault = v, outbound = [], dropped = [], audit = []\<rparr>"

subsection \<open>Event bus\<close>

text \<open>
  Modelled from the spec: section 4.2, "each subscriber's queue has a fixed capacity; on
  overflow the oldest queued event for that subscriber is dropped". The result is the new
  queue and the events dropped. The bus's queue code is missing.
\<close>

definition enqueue :: "nat \<Rightarrow> event list \<Rightarrow> event \<Rightarrow> event list \<times> event list" where
  "enqueue cap q ev =
     (if length q < cap then (q @ [ev], [])
      else case q of
             [] \<Rightarrow> ([], [ev])
           | oldest # rest \<Rightarrow> (rest @ [ev], [oldest]))"

text \<open>
  Modelled from the spec: section 4.2, the queue is the subscriber's own, and each event
  dropped is made observable (the log \<open>dropped\<close>, with the subscriber that lost it).
\<close>

definition enqueue_for :: "plugin_id \<Rightarrow> event \<Rightarrow> system \<Rightarrow> system" where
  "enqueue_for p ev s =
     (case enqueue (capacity s) (queues s p) ev of
        (q, lost) \<Rightarrow>
          s\<lparr>queues := (queues s)(p := q), dropped := dropped s @ map (Pair p) lost\<rparr>)"

text \<open>Modelled from the spec: section 4.2, one append for each matching subscriber.\<close>

fun enqueue_all :: "plugin_id list \<Rightarrow> event \<Rightarrow> system \<Rightarrow> system" where
  "enqueue_all [] ev s = s"
| "enqueue_all (p # ps) ev s = enqueue_all ps ev (enqueue_for p ev s)"

text \<open>
  Modelled from the spec: section 4.2, the subscribers that have a matching Subscription
  at publish time, each once (section 8: a subscriber receives an event once).
\<close>

definition subscribers :: "(plugin_id \<times> pattern) list \<Rightarrow> string \<Rightarrow> plugin_id list" where
  "subscribers subs t = remdups (map fst (filter (\<lambda>(p, pat). matches pat t) subs))"

text \<open>
  Modelled from the spec: section 4.2, "the Event is appended to a per-subscriber bounded
  queue for every currently matching Subscription, evaluated at publish time". The
  \<^verbatim>\<open>Dropped\<close> diagnostic is kept as the log \<open>dropped\<close>.
\<close>

definition publish :: "event \<Rightarrow> system \<Rightarrow> system" where
  "publish ev s = enqueue_all (subscribers (subscriptions s) (etype ev)) ev s"

text \<open>
  Modelled from the spec: section 4.2, unsubscribing "is idempotent and immediately stops
  further enqueue to that subscriber, draining but not delivering already-queued items".
\<close>

definition revoke_subscriptions :: "plugin_id \<Rightarrow> system \<Rightarrow> system" where
  "revoke_subscriptions p s =
     s\<lparr>subscriptions := filter (\<lambda>(q, pat). q \<noteq> p) (subscriptions s),
       queues := (queues s)(p := [])\<rparr>"

subsection \<open>Plugin lifecycle manager\<close>

text \<open>
  Modelled from the spec: the state machine of section 4.1,
  \<open>Discovered \<rightarrow> Loaded \<rightarrow> Initialized \<rightarrow> Running \<rightleftharpoons> Suspended \<rightarrow> ShuttingDown \<rightarrow> {ShutDown | Failed}\<close>.
  Each transition is enabled in its source state only and leaves the system unchanged
  otherwise. The lifecycle manager's code is missing.
\<close>

definition discover :: "plugin_id \<Rightarrow> plugin_manifest \<Rightarrow> system \<Rightarrow> system" where
  "discover p m s =
     (if plugin_states s p = None then
        s\<lparr>plugin_states := (plugin_states s)(p \<mapsto> Discovered),
          manifests := (manifests s)(p \<mapsto> m)\<rparr>
      else s)"

text \<open>Modelled from the spec: section 3, capabilities are "granted at load time".\<close>

definition load :: "plugin_id \<Rightarrow> system \<Rightarrow> system" where
  "load p s =
     (if plugin_states s p = Some Discovered then
        s\<lparr>plugin_states := (plugin_states s)(p \<mapsto> Loaded),
          granted := (granted s)(p := (case manifests s p of
                                         None \<Rightarrow> []
                                       | Some m \<Rightarrow> capabilities m))\<rparr>
      else s)"

text \<open>
  Modelled from the spec: section 4.1, "\<open>Loaded \<rightarrow> Initialized\<close> invokes the plugin's init
  entry point", and section 3, Subscriptions are "created on Initialized". The patterns are
  the event types the plugin's \<^verbatim>\<open>init\<close> subscribed to.
\<close>

definition init_ok :: "plugin_id \<Rightarrow> pattern list \<Rightarrow> system \<Rightarrow> system" where
  "init_ok p pats s =
     (if plugin_states s p = Some Loaded then
        s\<lparr>plugin_states := (plugin_states s)(p \<mapsto> Initialized),
          subscriptions := subscriptions s @ map (Pair p) pats,
          dispatched := (dispatched s)(p := dispatched s p @ [CallInit])\<rparr>
      else s)"

text \<open>
  Modelled from the spec: section 4.1, init "failure (timeout, trap, explicit error)
  transitions directly to \<open>Failed\<close>".
\<close>

definition init_failed :: "plugin_id \<Rightarrow> system \<Rightarrow> system" where
  "init_failed p s =
     (if plugin_states s p = Some Loaded then
        s\<lparr>plugin_states := (plugin_states s)(p \<mapsto> Failed),
          dispatched := (dispatched s)(p := dispatched s p @ [CallInit])\<rparr>
      else s)"

text \<open>Modelled from the spec: section 4.1, \<open>Initialized \<rightarrow> Running\<close>.\<close>

definition start :: "plugin_id \<Rightarrow> system \<Rightarrow> system" where
  "start p s =
     (if plugin_states s p = Some Initialized then
        s\<lparr>plugin_states := (plugin_states s)(p \<mapsto> Running)\<rparr>
      else s)"

text \<open>
  Modelled from the spec: section 4.1, "\<open>Running \<rightleftharpoons> Suspended\<close> is used to pause event delivery
  [...] without tearing down state".
\<close>

definition suspend :: "plugin_id \<Rightarrow> system \<Rightarrow> system" where
  "suspend p s =
     (if plugin_states s p = Some Running then
        s\<lparr>plugin_states := (plugin_states s)(p \<mapsto> Suspended)\<rparr>
      else s)"

text \<open>Modelled from the spec: section 4.1, \<open>Suspended \<rightarrow> Running\<close>.\<close>

definition resume :: "plugin_id \<Rightarrow> system \<Rightarrow> system" where
  "resume p s =
     (if plugin_states s p = Some Suspended then
        s\<lparr>plugin_states := (plugin_states s)(p \<mapsto> Running)\<rparr>
      else s)"

text \<open>
  Modelled from the spec: section 4.1, "\<open>ShuttingDown\<close> invokes the plugin's shutdown entry
  point", and sections 3 and 8: Subscriptions are destroyed on \<open>ShuttingDown\<close>, and after the
  transition all of the plugin's Subscriptions are absent from the bus.
\<close>

definition begin_shutdown :: "plugin_id \<Rightarrow> system \<Rightarrow> system" where
  "begin_shutdown p s =
     (if plugin_states s p = Some Running \<or> plugin_states s p = Some Suspended then
        revoke_subscriptions p
          (s\<lparr>plugin_states := (plugin_states s)(p \<mapsto> ShuttingDown),
             dispatched := (dispatched s)(p := dispatched s p @ [CallShutdown])\<rparr>)
      else s)"

text \<open>
  Modelled from the spec: section 4.1, \<open>ShuttingDown\<close> "revokes all Subscriptions and
  Capability grants atomically before reaching \<open>ShutDown\<close>"; the flag says whether the
  shutdown entry point ended well (\<open>ShutDown\<close>) or not (\<open>Failed\<close>).
\<close>

definition finish_shutdown :: "plugin_id \<Rightarrow> bool \<Rightarrow> system \<Rightarrow> system" where
  "finish_shutdown p clean s =
     (if plugin_states s p = Some ShuttingDown then
        revoke_subscriptions p
          (s\<lparr>plugin_states := (plugin_states s)(p \<mapsto> (if clean then ShutDown else Failed)),
             granted := (granted s)(p := [])\<rparr>)
      else s)"

text \<open>
  Modelled from the spec: section 4.1, "a runtime trap at any point while \<open>Running\<close> forces
  an immediate, unconditional transition to \<open>Failed\<close> [...] and its Subscriptions are revoked
  as part of the same transition".
\<close>

definition trap :: "plugin_id \<Rightarrow> system \<Rightarrow> system" where
  "trap p s =
     (if plugin_states s p = Some Running then
        revoke_subscriptions p (s\<lparr>plugin_states := (plugin_states s)(p \<mapsto> Failed)\<rparr>)
      else s)"

text \<open>
  Modelled from the spec: sections 2 and 5, the lifecycle manager delivers the events of a
  plugin's inbound queue to the instance, one \<^verbatim>\<open>handle-event\<close> call at a time; section 4.1,
  \<open>Suspended\<close> pauses delivery.
\<close>

definition deliver :: "plugin_id \<Rightarrow> system \<Rightarrow> system" where
  "deliver p s =
     (if plugin_states s p = Some Running then
        (case queues s p of
           [] \<Rightarrow> s
         | ev # rest \<Rightarrow>
             s\<lparr>queues := (queues s)(p := rest),
               dispatched := (dispatched s)(p := dispatched s p @ [CallHandleEvent ev])\<rparr>)
      else s)"

subsection \<open>Capability gateway\<close>

text \<open>
  Modelled from the spec: section 4.3, step (2) "resolve required Capability for
  function-name". \<^verbatim>\<open>send-message\<close> needs the \<open>ServiceApi\<close> capability of its service with the
  action \<^verbatim>\<open>send-message\<close> (the scenario of section 8), \<^verbatim>\<open>call-plugin\<close> the \<open>InterPlugin\<close>
  capability of its target and interface. No capability of section 3 names the event bus,
  so \<^verbatim>\<open>emit-event\<close> requires none. The gateway's code is missing.
\<close>

fun required_capability :: "host_call \<Rightarrow> capability option" where
  "required_capability (SendMessage service channel message) =
     Some (ServiceApi service [''send-message''])"
| "required_capability (EmitEvent t d) = None"
| "required_capability (CallPlugin target interface args) = Some (InterPlugin target interface)"

text \<open>
  Modelled from the spec: section 3, a \<open>ServiceApi\<close> capability carries an action set. A
  granted capability grants a required one when it is the same, or the same service with
  an action set that includes the required actions.
\<close>

fun grants :: "capability \<Rightarrow> capability \<Rightarrow> bool" where
  "grants (ServiceApi service acts) (ServiceApi service' acts') =
     (service = service' \<and> set acts' \<subseteq> set acts)"
| "grants g r = (g = r)"

text \<open>Modelled from the spec: section 4.3, step (3) "check granted-capability set".\<close>

definition has_capability :: "capability list \<Rightarrow> host_call \<Rightarrow> bool" where
  "has_capability caps call =
     (case required_capability call of
        None \<Rightarrow> True
      | Some r \<Rightarrow> list_ex (\<lambda>g. grants g r) caps)"

text \<open>
  Modelled from the spec: section 4.3, step (4). A \<open>ServiceApi\<close> call "consults the Credential
  Vault by service name and performs the action through the API Connection Manager", which
  the log \<open>outbound\<close> records; the bound expiring gives \<open>Timeout\<close>. \<^verbatim>\<open>emit-event\<close> publishes on
  the bus with the caller as source. An \<open>InterPlugin\<close> call is forwarded to the target
  instance as a request; a target that is the caller itself is busy with the calling call
  (\<open>Reentrant\<close>, section 4.4), and a target that is not \<open>Running\<close> gets no call (section 7).
\<close>

fun dispatch :: "plugin_id \<Rightarrow> host_call \<Rightarrow> reply \<Rightarrow> system \<Rightarrow> gateway_result \<times> system" where
  "dispatch p (SendMessage service channel message) r s =
     ((case r of Replied x \<Rightarrow> Ok None | Expired \<Rightarrow> Err Timeout),
      s\<lparr>outbound := outbound s @ [(service, vault s service, channel, message)]\<rparr>)"
| "dispatch p (EmitEvent t d) r s =
     (Ok None, publish \<lparr>etype = t, esource = Plugin p, edata = d\<rparr> s)"
| "dispatch p (CallPlugin target interface args) r s =
     (if target = p then (Err Reentrant, s)
      else if plugin_states s target \<noteq> Some Running then (Err NotRunning, s)
      else
        ((case r of Replied x \<Rightarrow> Ok (Some x) | Expired \<Rightarrow> Err Timeout),
         s\<lparr>dispatched :=
             (dispatched s)(target := dispatched s target @ [CallExport p interface args])\<rparr>))"

text \<open>
  Modelled from the spec: section 4.3, "Validation sequence: (1) look up plugin-id's
  current PluginState - reject with \<open>NotRunning\<close> unless \<open>Running\<close>; (2) resolve required
  Capability for function-name; (3) check granted-capability set from the plugin's
  manifest - reject with \<open>PermissionDenied\<close> if absent; (4) dispatch", and section 7: a
  denied call is "logged for audit".
\<close>

definition invoke :: "plugin_id \<Rightarrow> host_call \<Rightarrow> reply \<Rightarrow> system \<Rightarrow> gateway_result \<times> system" where
  "invoke p call r s =
     (if plugin_states s p \<noteq> Some Running then (Err NotRunning, s)
      else if \<not> has_capability (granted s p) call then
        (Err PermissionDenied, s\<lparr>audit := audit s @ [(p, call)]\<rparr>)
      else dispatch p call r s)"

subsection \<open>Executions\<close>

text \<open>
  Modelled from the spec: the data flow of section 2. Everything that can happen to the
  system, one operation at a time: the lifecycle transitions, an event arriving from the
  API Connection Manager, a delivery, and a gateway call with the collaborator's answer.
\<close>

datatype operation =
  Discover plugin_id plugin_manifest
| Load plugin_id
| InitOk plugin_id "pattern list"
| InitFailed plugin_id
| Start plugin_id
| Suspend plugin_id
| Resume plugin_id
| BeginShutdown plugin_id
| FinishShutdown plugin_id bool
| Trap plugin_id
| HostPublish string string
| Deliver plugin_id
| Invoke plugin_id host_call reply

text \<open>Modelled from the spec: each operation is the transition of the component that owns it.\<close>

fun step :: "operation \<Rightarrow> system \<Rightarrow> system" where
  "step (Discover p m) s = discover p m s"
| "step (Load p) s = load p s"
| "step (InitOk p pats) s = init_ok p pats s"
| "step (InitFailed p) s = init_failed p s"
| "step (Start p) s = start p s"
| "step (Suspend p) s = suspend p s"
| "step (Resume p) s = resume p s"
| "step (BeginShutdown p) s = begin_shutdown p s"
| "step (FinishShutdown p clean) s = finish_shutdown p clean s"
| "step (Trap p) s = trap p s"
| "step (HostPublish t d) s = publish \<lparr>etype = t, esource = Host, edata = d\<rparr> s"
| "step (Deliver p) s = deliver p s"
| "step (Invoke p call r) s = snd (invoke p call r s)"

text \<open>Modelled from the spec: an execution is a sequence of operations, applied in order.\<close>

fun run :: "operation list \<Rightarrow> system \<Rightarrow> system" where
  "run [] s = s"
| "run (op # ops) s = run ops (step op s)"

text \<open>
  Modelled from the spec: the plugin of the scenario of section 8; it declares \<open>ServiceApi{twitch, send-message}\<close>
  and nothing else.
\<close>

definition chat_plugin :: plugin_manifest where
  "chat_plugin =
     \<lparr>plugin_name = ''P'', plugin_version = ''1'',
      capabilities = [ServiceApi ''twitch'' [''send-message'']],
      declared_imports = [], declared_exports = []\<rparr>"

text \<open>
  Modelled from the spec: the invariant of section 3, "every Subscription's plugin-id must
  reference a PluginState strictly in \<open>{Initialized, Running, Suspended}\<close>".
\<close>

definition subs_live :: "system \<Rightarrow> bool" where
  "subs_live s \<longleftrightarrow>
     (\<forall>(p, pat) \<in> set (subscriptions s).
        plugin_states s p \<in> {Some Initialized, Some Running, Some Suspended})"

section \<open>Properties of the UI script\<close>

lemma str_includes_sublist: "str_includes s sub \<longleftrightarrow> sublist sub s"
  by (induction s) (auto simp: sublist_Cons_right)

lemma success_not_failure: "success_paragraph m \<noteq> failure_paragraph m"
  by (simp add: success_paragraph_def failure_paragraph_def ascii_def)

lemma success_not_plain: "success_paragraph m \<noteq> plain_paragraph m"
  by (simp add: success_paragraph_def plain_paragraph_def ascii_def)

lemma failure_not_plain: "failure_paragraph m \<noteq> plain_paragraph m"
  by (simp add: failure_paragraph_def plain_paragraph_def ascii_def)

lemma showResult_string:
  assumes "doc ''result'' = Some old"
  shows "showResult (JString m) doc =
           Inr (doc(''result'' \<mapsto>
             (if sublist (ascii ''Plugin returned:'') m then success_paragraph m
              else if sublist (ascii ''failed:'') m then failure_paragraph m
              else plain_paragraph m)))"
  using assms by (simp add: showResult_def str_includes_sublist)

lemma showResult_not_string:
  assumes "doc ''result'' = Some old" and "message = JUndefined \<or> message = JNull"
  shows "showResult message doc = Inl TypeError"
  using assms by (auto simp: showResult_def)

lemma showResult_branches:
  assumes "doc ''result'' = Some old"
  shows "\<exists>html. showResult (JString m) doc = Inr (doc(''result'' \<mapsto> html)) \<and>
           (html = success_paragraph m \<longleftrightarrow> sublist (ascii ''Plugin returned:'') m) \<and>
           (html = failure_paragraph m \<longleftrightarrow>
              sublist (ascii ''failed:'') m \<and> \<not> sublist (ascii ''Plugin returned:'') m) \<and>
           (html = plain_paragraph m \<longleftrightarrow>
              \<not> sublist (ascii ''failed:'') m \<and> \<not> sublist (ascii ''Plugin returned:'') m)"
proof -
  let ?html = "if sublist (ascii ''Plugin returned:'') m then success_paragraph m
               else if sublist (ascii ''failed:'') m then failure_paragraph m
               else plain_paragraph m"
  have run: "showResult (JString m) doc = Inr (doc(''result'' \<mapsto> ?html))"
    using assms by (rule showResult_string)
  have "?html = success_paragraph m \<longleftrightarrow> sublist (ascii ''Plugin returned:'') m"
    using success_not_failure [of m] success_not_plain [of m] by auto
  moreover have "?html = failure_paragraph m \<longleftrightarrow>
      sublist (ascii ''failed:'') m \<and> \<not> sublist (ascii ''Plugin returned:'') m"
    using success_not_failure [of m] failure_not_plain [of m] by auto
  moreover have "?html = plain_paragraph m \<longleftrightarrow>
      \<not> sublist (ascii ''failed:'') m \<and> \<not> sublist (ascii ''Plugin returned:'') m"
    using success_not_plain [of m] failure_not_plain [of m] by auto
  ultimately show ?thesis
    using run by blast
qed

text \<open>
  C8. When the result element exists and the message is a string, \<open>showResult\<close> assigns
  exactly one string to the element's \<^verbatim>\<open>innerHTML\<close> and nothing else changes. The string is
  \<^verbatim>\<open><p style="color: green;">\<close>, the code unit U+2705, a space, the message and \<^verbatim>\<open></p>\<close> exactly
  when the message contains \<^verbatim>\<open>Plugin returned:\<close> (whether or not it also contains
  \<^verbatim>\<open>failed:\<close>); it is \<^verbatim>\<open><p style="color: red;">\<close>, the code unit U+274C, a space, the message
  and \<^verbatim>\<open></p>\<close> exactly when the message contains \<^verbatim>\<open>failed:\<close> but not \<^verbatim>\<open>Plugin returned:\<close>; and
  it is \<^verbatim>\<open><p>\<close>, the message and \<^verbatim>\<open></p>\<close> exactly when the message contains neither.
  Containment is the mathematical one: the needle is a contiguous part of the message.
\<close>

theorem showResult_colours:
  assumes \<open>doc ''result'' = Some old\<close>
  shows \<open>\<exists>html. showResult (JString m) doc = Inr (doc(''result'' \<mapsto> html)) \<and>
           (html = map of_char ''<p style="color: green;">'' @ [0x2705] @ map of_char '' '' @ m @
                     map of_char ''</p>'' \<longleftrightarrow>
              sublist (map of_char ''Plugin returned:'') m) \<and>
           (html = map of_char ''<p style="color: red;">'' @ [0x274C] @ map of_char '' '' @ m @
                     map of_char ''</p>'' \<longleftrightarrow>
              sublist (map of_char ''failed:'') m \<and>
              \<not> sublist (map of_char ''Plugin returned:'') m) \<and>
           (html = map of_char ''<p>'' @ m @ map of_char ''</p>'' \<longleftrightarrow>
              \<not> sublist (map of_char ''failed:'') m \<and>
              \<not> sublist (map of_char ''Plugin returned:'') m)\<close>
  using showResult_branches [of doc old m] assms
  unfolding success_paragraph_def failure_paragraph_def plain_paragraph_def ascii_def
  by blast

theorem showResult_colours_witness:
  \<open>showResult (JString (map of_char ''Plugin returned: failed: 1'')) [''result'' \<mapsto> []] =
     Inr [''result'' \<mapsto>
       map of_char ''<p style="color: green;">'' @ [0x2705] @
       map of_char '' Plugin returned: failed: 1</p>''] \<and>
   showResult (JString (map of_char ''load failed: 2'')) [''result'' \<mapsto> []] =
     Inr [''result'' \<mapsto>
       map of_char ''<p style="color: red;">'' @ [0x274C] @ map of_char '' load failed: 2</p>''] \<and>
   showResult (JString (map of_char ''ready'')) [''result'' \<mapsto> []] =
     Inr [''result'' \<mapsto> map of_char ''<p>ready</p>'']\<close>
proof -
  let ?doc = "[''result'' \<mapsto> []] :: html_document"
  let ?green = "map of_char ''Plugin returned: failed: 1'' :: js_string"
  let ?red = "map of_char ''load failed: 2'' :: js_string"
  let ?plain = "map of_char ''ready'' :: js_string"
  have element: "?doc ''result'' = Some []"
    by simp
  have g: "sublist (map of_char ''Plugin returned:'') ?green"
    unfolding str_includes_sublist [symmetric] by simp
  have r: "sublist (map of_char ''failed:'') ?red \<and> \<not> sublist (map of_char ''Plugin returned:'') ?red"
    unfolding str_includes_sublist [symmetric] by simp
  have n: "\<not> sublist (map of_char ''failed:'') ?plain \<and>
           \<not> sublist (map of_char ''Plugin returned:'') ?plain"
    unfolding str_includes_sublist [symmetric] by simp
  from showResult_colours [of ?doc "[]" ?green] element g
  have a: \<open>showResult (JString ?green) ?doc =
      Inr (?doc(''result'' \<mapsto> map of_char ''<p style="color: green;">'' @ [0x2705] @
        map of_char '' '' @ ?green @ map of_char ''</p>''))\<close>
    by metis
  from showResult_colours [of ?doc "[]" ?red] element r
  have b: \<open>showResult (JString ?red) ?doc =
      Inr (?doc(''result'' \<mapsto> map of_char ''<p style="color: red;">'' @ [0x274C] @
        map of_char '' '' @ ?red @ map of_char ''</p>''))\<close>
    by metis
  from showResult_colours [of ?doc "[]" ?plain] element n
  have c: \<open>showResult (JString ?plain) ?doc =
      Inr (?doc(''result'' \<mapsto> map of_char ''<p>'' @ ?plain @ map of_char ''</p>''))\<close>
    by metis
  from a b c show ?thesis
    by simp
qed

text \<open>
  C9. When the document has no element with id \<^verbatim>\<open>result\<close>, \<open>showResult\<close> returns normally
  and leaves the document as it was, whatever the message is: a string or a value on
  which \<^verbatim>\<open>message.includes\<close> would throw.
\<close>

theorem showResult_without_element:
  "doc ''result'' = None \<Longrightarrow> showResult message doc = Inr doc"
  by (simp add: showResult_def)

theorem showResult_without_element_witness:
  "(Map.empty :: html_document) ''result'' = None \<and> showResult JUndefined Map.empty = Inr Map.empty"
  using showResult_without_element [of Map.empty JUndefined] by simp

lemma run_listeners_other_name:
  "\<forall>(name, callback) \<in> set ls. name \<noteq> event_name ev \<Longrightarrow> run_listeners ls ev doc = doc"
  by (induction ls) auto

text \<open>
  C10. \<open>clickButton\<close> sends exactly one command to the backend, named
  \<^verbatim>\<open>handle_button_click\<close> with no arguments after the name, and changes nothing else of the
  UI: neither the document nor the listeners. What the backend resolves the call to does
  not reach the caller, who gets \<^verbatim>\<open>undefined\<close>. The document changes only when the backend
  emits an event: after \<^verbatim>\<open>DOMContentLoaded\<close> the one listener is the one for
  \<^verbatim>\<open>button-clicked\<close>, which runs \<open>showResult\<close> on the payload, and an event of any other name
  leaves the document alone.
\<close>

theorem clickButton_only_invokes:
  "snd (clickButton reply u) =
     u\<lparr>ipc_calls := ipc_calls u @ [(ascii ''handle_button_click'', [])]\<rparr> \<and>
   page (snd (clickButton reply u)) = page u \<and>
   event_listeners (snd (clickButton reply u)) = event_listeners u \<and>
   fst (clickButton (Resolved v) u) = Resolved JUndefined \<and>
   event_listeners (on_DOMContentLoaded (initial_ui doc)) =
     [(ascii ''button-clicked'', button_clicked_listener)] \<and>
   page (backend_emits ev (on_DOMContentLoaded (initial_ui doc))) =
     (if event_name ev = ascii ''button-clicked'' then
        (case showResult (payload ev) doc of Inr doc' \<Rightarrow> doc' | Inl err \<Rightarrow> doc)
      else doc)"
  by (cases reply)
    (auto simp: clickButton_def on_DOMContentLoaded_def initial_ui_def backend_emits_def
      button_clicked_listener_def Let_def split: sum.splits)

theorem clickButton_only_invokes_witness:
  "ipc_calls (snd (clickButton (Resolved (JString (ascii ''ok''))) (initial_ui [''result'' \<mapsto> []]))) =
     [(ascii ''handle_button_click'', [])] \<and>
   page (snd (clickButton (Resolved (JString (ascii ''ok''))) (initial_ui [''result'' \<mapsto> []]))) =
     [''result'' \<mapsto> []] \<and>
   fst (clickButton (Resolved (JString (ascii ''ok''))) (initial_ui [''result'' \<mapsto> []])) =
     Resolved JUndefined"
  using clickButton_only_invokes
    [of "Resolved (JString (ascii ''ok''))" "initial_ui [''result'' \<mapsto> []]" "JString (ascii ''ok'')"]
  by (simp add: initial_ui_def)

section \<open>Properties of the plugin host core\<close>

lemmas lifecycle_defs = boot_def discover_def load_def init_ok_def init_failed_def start_def
  suspend_def resume_def begin_shutdown_def finish_shutdown_def trap_def deliver_def
  revoke_subscriptions_def

lemma enqueue_for_frame:
  "plugin_states (enqueue_for p ev s) = plugin_states s"
  "subscriptions (enqueue_for p ev s) = subscriptions s"
  "dispatched (enqueue_for p ev s) = dispatched s"
  "granted (enqueue_for p ev s) = granted s"
  "capacity (enqueue_for p ev s) = capacity s"
  "q \<noteq> p \<Longrightarrow> queues (enqueue_for p ev s) q = queues s q"
  by (simp_all add: enqueue_for_def split: prod.splits)

lemma enqueue_all_frame:
  "plugin_states (enqueue_all ps ev s) = plugin_states s"
  "subscriptions (enqueue_all ps ev s) = subscriptions s"
  "dispatched (enqueue_all ps ev s) = dispatched s"
  "granted (enqueue_all ps ev s) = granted s"
  by (induction ps arbitrary: s) (simp_all add: enqueue_for_frame)

lemma enqueue_all_other_queue:
  "q \<notin> set ps \<Longrightarrow> queues (enqueue_all ps ev s) q = queues s q"
  by (induction ps arbitrary: s) (simp_all add: enqueue_for_frame)

lemma publish_frame:
  "plugin_states (publish ev s) = plugin_states s"
  "subscriptions (publish ev s) = subscriptions s"
  "dispatched (publish ev s) = dispatched s"
  "granted (publish ev s) = granted s"
  by (simp_all add: publish_def enqueue_all_frame)

lemma subscribers_subscribed:
  "p \<in> set (subscribers subs t) \<Longrightarrow> \<exists>pat. (p, pat) \<in> set subs \<and> matches pat t"
  by (auto simp: subscribers_def)

lemma publish_unsubscribed_queue:
  "\<forall>pat. (p, pat) \<notin> set (subscriptions s) \<Longrightarrow> queues (publish ev s) p = queues s p"
  unfolding publish_def
  by (rule enqueue_all_other_queue) (blast dest: subscribers_subscribed)

lemma invoke_frame:
  "plugin_states (snd (invoke p call r s)) = plugin_states s"
  "subscriptions (snd (invoke p call r s)) = subscriptions s"
  by (cases call; simp add: invoke_def publish_frame)+

lemma step_subs_live: "subs_live s \<Longrightarrow> subs_live (step op s)"
proof (cases op)
  case (HostPublish t d)
  then show "subs_live s \<Longrightarrow> subs_live (step op s)"
    by (simp add: subs_live_def publish_frame)
next
  case (Invoke p call r)
  then show "subs_live s \<Longrightarrow> subs_live (step op s)"
    by (simp add: subs_live_def invoke_frame)
qed (auto simp: subs_live_def discover_def load_def init_ok_def init_failed_def start_def
       suspend_def resume_def begin_shutdown_def finish_shutdown_def trap_def deliver_def
       revoke_subscriptions_def split: if_splits list.splits)

lemma boot_subs_live: "subs_live (boot cap v)"
  by (simp add: subs_live_def boot_def)

lemma run_subs_live: "subs_live s \<Longrightarrow> subs_live (run ops s)"
  by (induction ops arbitrary: s) (simp_all add: step_subs_live)

lemma new_subscription:
  assumes "(p, pat) \<in> set (subscriptions (step op s))" and "(p, pat) \<notin> set (subscriptions s)"
  shows "plugin_states s p = Some Loaded \<and> plugin_states (step op s) p = Some Initialized"
proof (cases op)
  case (HostPublish t d)
  with assms show ?thesis
    by (simp add: publish_frame)
next
  case (Invoke q call r)
  with assms show ?thesis
    by (simp add: invoke_frame)
qed (use assms in \<open>auto simp: discover_def load_def init_ok_def init_failed_def start_def
       suspend_def resume_def begin_shutdown_def finish_shutdown_def trap_def deliver_def
       revoke_subscriptions_def split: if_splits list.splits\<close>)

text \<open>
  C5. In every state the system reaches from its start by any sequence of operations, every
  Subscription belongs to a plugin whose state is \<open>Initialized\<close>, \<open>Running\<close> or \<open>Suspended\<close>.
  The invariant is kept step by step: an operation adds a Subscription only for a plugin
  that it moves from \<open>Loaded\<close> to \<open>Initialized\<close>, and a plugin that an operation leaves in
  \<open>ShuttingDown\<close> or \<open>Failed\<close> has no Subscription in the state after that same operation.
\<close>

theorem subscriptions_reference_live_plugins:
  "(let s = run ops (boot cap v) in
     (\<forall>(p, pat) \<in> set (subscriptions s).
        plugin_states s p \<in> {Some Initialized, Some Running, Some Suspended}) \<and>
     (\<forall>p pat. (p, pat) \<in> set (subscriptions (step op s)) \<and> (p, pat) \<notin> set (subscriptions s) \<longrightarrow>
        plugin_states s p = Some Loaded \<and> plugin_states (step op s) p = Some Initialized) \<and>
     (\<forall>p pat. plugin_states (step op s) p \<in> {Some ShuttingDown, Some Failed} \<longrightarrow>
        (p, pat) \<notin> set (subscriptions (step op s))))"
proof -
  define s where "s = run ops (boot cap v)"
  have live: "subs_live s"
    unfolding s_def by (rule run_subs_live) (rule boot_subs_live)
  have "subs_live (step op s)"
    using live by (rule step_subs_live)
  then have gone: "\<forall>p pat. plugin_states (step op s) p \<in> {Some ShuttingDown, Some Failed} \<longrightarrow>
      (p, pat) \<notin> set (subscriptions (step op s))"
    unfolding subs_live_def by fastforce
  have created: "\<forall>p pat. (p, pat) \<in> set (subscriptions (step op s)) \<and> (p, pat) \<notin> set (subscriptions s) \<longrightarrow>
      plugin_states s p = Some Loaded \<and> plugin_states (step op s) p = Some Initialized"
    using new_subscription by blast
  from live gone created show ?thesis
    unfolding subs_live_def Let_def s_def by blast
qed

theorem subscriptions_reference_live_plugins_witness:
  "(1, Wildcard) \<in> set (subscriptions
      (run [Discover 1 chat_plugin, Load 1, InitOk 1 [Wildcard], Start 1] (boot 4 Map.empty))) \<and>
   plugin_states (run [Discover 1 chat_plugin, Load 1, InitOk 1 [Wildcard], Start 1]
      (boot 4 Map.empty)) 1 \<in> {Some Initialized, Some Running, Some Suspended} \<and>
   subscriptions (step (Trap 1)
      (run [Discover 1 chat_plugin, Load 1, InitOk 1 [Wildcard], Start 1] (boot 4 Map.empty))) = []"
proof -
  let ?ops = "[Discover 1 chat_plugin, Load 1, InitOk 1 [Wildcard], Start 1]"
  let ?s = "run ?ops (boot 4 Map.empty)"
  have sub: "(1, Wildcard) \<in> set (subscriptions ?s)"
    by (simp add: lifecycle_defs)
  have gone: "subscriptions (step (Trap 1) ?s) = []"
    by (simp add: lifecycle_defs)
  from subscriptions_reference_live_plugins [of ?ops 4 Map.empty "Trap 1"]
  have "\<forall>(p, pat) \<in> set (subscriptions ?s).
          plugin_states ?s p \<in> {Some Initialized, Some Running, Some Suspended}"
    unfolding Let_def by blast
  with sub have "plugin_states ?s 1 \<in> {Some Initialized, Some Running, Some Suspended}"
    by fastforce
  with sub gone show ?thesis
    by blast
qed

lemma failed_step:
  assumes "plugin_states s p = Some Failed" and "\<forall>pat. (p, pat) \<notin> set (subscriptions s)"
    and "queues s p = []"
  shows "plugin_states (step op s) p = Some Failed \<and>
         (\<forall>pat. (p, pat) \<notin> set (subscriptions (step op s))) \<and>
         queues (step op s) p = [] \<and> dispatched (step op s) p = dispatched s p"
proof (cases op)
  case (HostPublish t d)
  with assms show ?thesis
    by (simp add: publish_frame publish_unsubscribed_queue)
next
  case (Invoke q call r)
  with assms show ?thesis
    by (cases call) (auto simp: invoke_def publish_frame publish_unsubscribed_queue)
qed (use assms in \<open>auto simp: discover_def load_def init_ok_def init_failed_def start_def
       suspend_def resume_def begin_shutdown_def finish_shutdown_def trap_def deliver_def
       revoke_subscriptions_def split: if_splits list.splits\<close>)

lemma failed_run:
  assumes "plugin_states s p = Some Failed" and "\<forall>pat. (p, pat) \<notin> set (subscriptions s)"
    and "queues s p = []"
  shows "plugin_states (run ops s) p = Some Failed \<and>
         (\<forall>pat. (p, pat) \<notin> set (subscriptions (run ops s))) \<and>
         queues (run ops s) p = [] \<and> dispatched (run ops s) p = dispatched s p"
  using assms
proof (induction ops arbitrary: s)
  case Nil
  then show ?case by simp
next
  case (Cons op ops)
  from failed_step [OF Cons.prems, of op] Cons.IH [of "step op s"] show ?case
    by simp
qed

lemma trap_running:
  assumes "plugin_states s p = Some Running"
  shows "plugin_states (trap p s) p = Some Failed" "\<forall>pat. (p, pat) \<notin> set (subscriptions (trap p s))"
    "queues (trap p s) p = []" "dispatched (trap p s) p = dispatched s p"
  using assms by (auto simp: trap_def revoke_subscriptions_def)

text \<open>
  C4. A trap of a plugin that is \<open>Running\<close> is one transition, after which the plugin is
  \<open>Failed\<close>, has no Subscription and an empty inbound queue. Whatever operations follow, this
  stays so and no call is dispatched into the instance any more: its log of dispatched
  calls is the one before the trap. In particular a later publish of any event leaves its
  queue empty, a delivery after it hands the instance nothing, and every gateway call made
  in the plugin's name is rejected with \<open>NotRunning\<close> and changes nothing.
\<close>

theorem trap_fails_plugin:
  assumes "plugin_states s p = Some Running"
  shows "(let s' = run ops (trap p s) in
           plugin_states s' p = Some Failed \<and>
           (\<forall>pat. (p, pat) \<notin> set (subscriptions s')) \<and>
           queues s' p = [] \<and>
           dispatched s' p = dispatched s p \<and>
           queues (publish ev s') p = [] \<and>
           dispatched (deliver p (publish ev s')) p = dispatched s p \<and>
           invoke p call r s' = (Err NotRunning, s'))"
proof -
  define s' where "s' = run ops (trap p s)"
  have dead: "plugin_states s' p = Some Failed \<and> (\<forall>pat. (p, pat) \<notin> set (subscriptions s')) \<and>
      queues s' p = [] \<and> dispatched s' p = dispatched (trap p s) p"
    unfolding s'_def using trap_running(1-3) [OF assms] by (rule failed_run)
  then have after: "dispatched s' p = dispatched s p"
    using trap_running(4) [OF assms] by simp
  from dead have quiet: "queues (publish ev s') p = []"
    by (simp add: publish_unsubscribed_queue)
  from dead after have idle: "dispatched (deliver p (publish ev s')) p = dispatched s p"
    by (simp add: deliver_def publish_frame)
  from dead have rejected: "invoke p call r s' = (Err NotRunning, s')"
    by (simp add: invoke_def)
  from dead after quiet idle rejected show ?thesis
    unfolding Let_def s'_def by blast
qed

theorem trap_fails_plugin_witness:
  "plugin_states (run [Discover 1 chat_plugin, Load 1, InitOk 1 [Wildcard], Start 1]
      (boot 4 Map.empty)) 1 = Some Running \<and>
   queues (publish \<lparr>etype = ''chat'', esource = Host, edata = ''hello''\<rparr>
      (run [Discover 1 chat_plugin, Load 1, InitOk 1 [Wildcard], Start 1] (boot 4 Map.empty))) 1 =
     [\<lparr>etype = ''chat'', esource = Host, edata = ''hello''\<rparr>] \<and>
   queues (publish \<lparr>etype = ''chat'', esource = Host, edata = ''hello''\<rparr>
      (run [HostPublish ''chat'' ''first'', Deliver 1]
         (trap 1 (run [Discover 1 chat_plugin, Load 1, InitOk 1 [Wildcard], Start 1]
            (boot 4 Map.empty))))) 1 = [] \<and>
   plugin_states (run [HostPublish ''chat'' ''first'', Deliver 1]
         (trap 1 (run [Discover 1 chat_plugin, Load 1, InitOk 1 [Wildcard], Start 1]
            (boot 4 Map.empty)))) 1 = Some Failed"
proof -
  let ?running = "run [Discover 1 chat_plugin, Load 1, InitOk 1 [Wildcard], Start 1] (boot 4 Map.empty)"
  let ?ev = "\<lparr>etype = ''chat'', esource = Host, edata = ''hello''\<rparr>"
  have run: "plugin_states ?running 1 = Some Running"
    by (simp add: lifecycle_defs)
  have before: "queues (publish ?ev ?running) 1 = [?ev]"
    by (simp add: lifecycle_defs publish_def subscribers_def enqueue_for_def enqueue_def)
  from trap_fails_plugin [OF run, of "[HostPublish ''chat'' ''first'', Deliver 1]" ?ev]
  have "queues (publish ?ev (run [HostPublish ''chat'' ''first'', Deliver 1] (trap 1 ?running))) 1 = []
      \<and> plugin_states (run [HostPublish ''chat'' ''first'', Deliver 1] (trap 1 ?running)) 1 = Some Failed"
    unfolding Let_def by blast
  with run before show ?thesis
    by blast
qed

lemma dispatch_not_denied: "fst (dispatch p call r s) \<noteq> Err PermissionDenied"
  by (cases call; cases r) auto

text \<open>
  C3. The gateway checks the caller's state first: a call in the name of a plugin that is
  not \<open>Running\<close> returns \<open>NotRunning\<close> and leaves the system as it was, whether or not the
  plugin holds the capability. \<open>PermissionDenied\<close> is returned exactly when the caller is
  \<open>Running\<close> and the required capability is not granted, and then the only effect is the
  audit entry. Only a call that passes both checks is dispatched.
\<close>

theorem invoke_validation_order:
  "(plugin_states s p \<noteq> Some Running \<longrightarrow> invoke p call r s = (Err NotRunning, s)) \<and>
   (fst (invoke p call r s) = Err PermissionDenied \<longleftrightarrow>
      plugin_states s p = Some Running \<and> \<not> has_capability (granted s p) call) \<and>
   (fst (invoke p call r s) = Err PermissionDenied \<longrightarrow>
      snd (invoke p call r s) = s\<lparr>audit := audit s @ [(p, call)]\<rparr>) \<and>
   (plugin_states s p = Some Running \<and> has_capability (granted s p) call \<longrightarrow>
      invoke p call r s = dispatch p call r s)"
  using dispatch_not_denied [of p call r s] by (auto simp: invoke_def)

theorem invoke_validation_order_witness:
  "fst (invoke 1 (SendMessage ''discord'' ''general'' ''hi'') (Replied ''done'')
         (run [Discover 1 chat_plugin, Load 1, InitOk 1 [Wildcard], Start 1, Suspend 1]
            (boot 4 Map.empty))) = Err NotRunning \<and>
   fst (invoke 1 (SendMessage ''discord'' ''general'' ''hi'') (Replied ''done'')
         (run [Discover 1 chat_plugin, Load 1, InitOk 1 [Wildcard], Start 1]
            (boot 4 Map.empty))) = Err PermissionDenied \<and>
   fst (invoke 1 (SendMessage ''twitch'' ''chat'' ''hi'') (Replied ''done'')
         (run [Discover 1 chat_plugin, Load 1, InitOk 1 [Wildcard], Start 1]
            (boot 4 Map.empty))) = Ok None"
proof -
  let ?running = "run [Discover 1 chat_plugin, Load 1, InitOk 1 [Wildcard], Start 1] (boot 4 Map.empty)"
  let ?suspended = "run [Discover 1 chat_plugin, Load 1, InitOk 1 [Wildcard], Start 1, Suspend 1]
                      (boot 4 Map.empty)"
  let ?discord = "SendMessage ''discord'' ''general'' ''hi''"
  let ?twitch = "SendMessage ''twitch'' ''chat'' ''hi''"
  have susp: "plugin_states ?suspended 1 \<noteq> Some Running"
    by (simp add: lifecycle_defs)
  have run: "plugin_states ?running 1 = Some Running"
    by (simp add: lifecycle_defs)
  have caps: "granted ?running 1 = [ServiceApi ''twitch'' [''send-message'']]"
    by (simp add: lifecycle_defs chat_plugin_def)
  have no: "\<not> has_capability (granted ?running 1) ?discord"
    unfolding caps by (simp add: has_capability_def)
  have yes: "has_capability (granted ?running 1) ?twitch"
    unfolding caps by (simp add: has_capability_def)
  from invoke_validation_order [of ?suspended 1 ?discord "Replied ''done''"] susp
  have a: "fst (invoke 1 ?discord (Replied ''done'') ?suspended) = Err NotRunning"
    by simp
  from invoke_validation_order [of ?running 1 ?discord "Replied ''done''"] run no
  have b: "fst (invoke 1 ?discord (Replied ''done'') ?running) = Err PermissionDenied"
    by blast
  from invoke_validation_order [of ?running 1 ?twitch "Replied ''done''"] run yes
  have "invoke 1 ?twitch (Replied ''done'') ?running = dispatch 1 ?twitch (Replied ''done'') ?running"
    by blast
  then have c: "fst (invoke 1 ?twitch (Replied ''done'') ?running) = Ok None"
    by simp
  from a b c show ?thesis
    by blast
qed

end
